theory Spec2Isabelle
  imports Main "HOL-Library.AList"
begin

section \<open>Python string operations used by the assistant\<close>

text \<open>
  Strings are lists of characters; a character stands for the code point of the same
  number (U+0000 to U+00FF).  The functions below follow what CPython does on such
  strings.
\<close>

type_synonym path = string

definition isspace :: "char \<Rightarrow> bool" where
  \<comment> \<open>\<^verbatim>\<open>str.isspace\<close> on one character: U+0009-U+000D, U+001C-U+0020, U+0085, U+00A0.\<close>
  "isspace c = (let n = (of_char c :: nat)
                in (9 \<le> n \<and> n \<le> 13) \<or> (28 \<le> n \<and> n \<le> 32) \<or> n = 133 \<or> n = 160)"

definition strip :: "string \<Rightarrow> string" where
  \<comment> \<open>\<^verbatim>\<open>s.strip()\<close>\<close>
  "strip s = rev (dropWhile isspace (rev (dropWhile isspace s)))"

fun split_from :: "string \<Rightarrow> string \<Rightarrow> string list" where
  \<comment> \<open>the scan of \<^verbatim>\<open>s.split()\<close>: \<open>cur\<close> is the token read so far\<close>
  "split_from cur [] = (if cur = [] then [] else [cur])"
| "split_from cur (c # cs) =
     (if isspace c then (if cur = [] then split_from [] cs else cur # split_from [] cs)
      else split_from (cur @ [c]) cs)"

definition split :: "string \<Rightarrow> string list" where
  \<comment> \<open>\<^verbatim>\<open>s.split()\<close> with no separator: runs of whitespace separate the tokens\<close>
  "split s = split_from [] s"

definition lower_char :: "char \<Rightarrow> char" where
  "lower_char c = (let n = (of_char c :: nat)
                   in if (65 \<le> n \<and> n \<le> 90) \<or> (192 \<le> n \<and> n \<le> 222 \<and> n \<noteq> 215)
                      then char_of (n + 32) else c)"

definition lower :: "string \<Rightarrow> string" where
  \<comment> \<open>\<^verbatim>\<open>s.lower()\<close>\<close>
  "lower s = map lower_char s"

fun join :: "string list \<Rightarrow> string" where
  \<comment> \<open>\<^verbatim>\<open>' '.join(xs)\<close>\<close>
  "join [] = []"
| "join [x] = x"
| "join (x # y # ys) = x @ '' '' @ join (y # ys)"

definition is_digit :: "char \<Rightarrow> bool" where
  "is_digit c = (let n = (of_char c :: nat) in 48 \<le> n \<and> n \<le> 57)"

definition digit_val :: "char \<Rightarrow> nat" where
  "digit_val c = of_char c - 48"

fun int_digits :: "nat \<Rightarrow> string \<Rightarrow> nat option" where
  \<comment> \<open>the digits after the first one; a single underscore may stand between two digits\<close>
  "int_digits acc [] = Some acc"
| "int_digits acc [c] = (if is_digit c then Some (10 * acc + digit_val c) else None)"
| "int_digits acc (c # d # ds) =
     (if is_digit c then int_digits (10 * acc + digit_val c) (d # ds)
      else if c = CHR ''_'' \<and> is_digit d then int_digits (10 * acc + digit_val d) ds
      else None)"

definition py_int :: "string \<Rightarrow> int option" where
  \<comment> \<open>\<^verbatim>\<open>int(s)\<close> on a string; \<open>None\<close> is ValueError.  Surrounding whitespace is
      dropped, one sign is allowed, then decimal digits.  The interpreter's optional cap
      on the number of digits is not part of the model.\<close>
  "py_int s =
     (let t = strip s;
          neg = (case t of c # _ \<Rightarrow> c = CHR ''-'' | [] \<Rightarrow> False);
          u = (case t of c # cs \<Rightarrow> if c = CHR ''-'' \<or> c = CHR ''+'' then cs else t | [] \<Rightarrow> [])
      in case u of
           [] \<Rightarrow> None
         | d # ds \<Rightarrow>
             if is_digit d
             then map_option (\<lambda>n. if neg then - int n else int n) (int_digits (digit_val d) ds)
             else None)"

definition digit_char :: "nat \<Rightarrow> char" where
  "digit_char n = char_of (48 + n)"

fun str_nat :: "nat \<Rightarrow> string" where
  \<comment> \<open>\<^verbatim>\<open>str(n)\<close> for a non-negative integer\<close>
  "str_nat n = (if n < 10 then [digit_char n] else str_nat (n div 10) @ [digit_char (n mod 10)])"

declare str_nat.simps [simp del]

definition rjust :: "nat \<Rightarrow> string \<Rightarrow> string" where
  \<comment> \<open>right-justify in a field of the given width, as the format \<^verbatim>\<open>{i:2d}\<close> does\<close>
  "rjust w s = replicate (w - length s) CHR '' '' @ s"

fun startswith :: "string \<Rightarrow> string \<Rightarrow> bool" where
  "startswith [] s = True"
| "startswith (k # ks) [] = False"
| "startswith (k # ks) (c # cs) = (k = c \<and> startswith ks cs)"

fun contains :: "string \<Rightarrow> string \<Rightarrow> bool" where
  \<comment> \<open>\<^verbatim>\<open>k in s\<close> on strings\<close>
  "contains k [] = (k = [])"
| "contains k (c # cs) = (startswith k (c # cs) \<or> contains k cs)"


definition last_n :: "nat \<Rightarrow> 'a list \<Rightarrow> 'a list" where
  \<comment> \<open>the slice \<^verbatim>\<open>xs[-n:]\<close> for \<open>n > 0\<close>: the whole list when it has at most \<open>n\<close> elements\<close>
  "last_n n xs = drop (length xs - n) xs"

section \<open>Data model\<close>

record note_item =
  content :: string
  timestamp :: string

record todo =
  task :: string
  is_done :: bool
  created :: string

record hist_entry =
  command :: string
  recorded :: string

text \<open>
  The values that \<^verbatim>\<open>json.dump\<close> writes and \<^verbatim>\<open>json.load\<close> returns.  A Python
  dictionary keeps its keys in insertion order, so an object is an association list.
\<close>

datatype json =
    JNull
  | JBool bool
  | JNum int
  | JStr string
  | JArr "json list"
  | JObj "(string \<times> json) list"

definition note_json :: "note_item \<Rightarrow> json" where
  "note_json n = JObj [(''content'', JStr (content n)), (''timestamp'', JStr (timestamp n))]"

definition notes_json :: "(string \<times> note_item) list \<Rightarrow> json" where
  "notes_json ns = JObj (map (\<lambda>(t, n). (t, note_json n)) ns)"

definition todo_json :: "todo \<Rightarrow> json" where
  "todo_json t =
     JObj [(''task'', JStr (task t)), (''done'', JBool (is_done t)), (''created'', JStr (created t))]"

definition todos_json :: "todo list \<Rightarrow> json" where
  "todos_json ts = JArr (map todo_json ts)"

definition entry_json :: "hist_entry \<Rightarrow> json" where
  "entry_json e = JObj [(''command'', JStr (command e)), (''timestamp'', JStr (recorded e))]"

definition history_json :: "hist_entry list \<Rightarrow> json" where
  "history_json h = JArr (map entry_json h)"

section \<open>The files on disk\<close>

text \<open>
  What a file holds, as a text-mode read sees it: text, or bytes that are not valid in
  the file encoding.  Reading the latter raises UnicodeDecodeError, a ValueError that is
  neither \<^verbatim>\<open>json.JSONDecodeError\<close> nor \<^verbatim>\<open>IOError\<close>.
\<close>

datatype file_data = Text string | Undecodable

datatype exn = JSONDecodeError | IOError | UnicodeDecodeError

record fs =
  file_at :: "path \<Rightarrow> file_data option"
     \<comment> \<open>\<open>None\<close>: no such file\<close>
  read_denied :: "path \<Rightarrow> bool"
     \<comment> \<open>opening the file for reading raises IOError\<close>
  write_error :: "path \<Rightarrow> string option"
     \<comment> \<open>\<open>Some msg\<close>: opening the file for writing raises IOError with this message\<close>

section \<open>The world outside the program\<close>

datatype glob_result = Matches "path list" | PermissionError | GlobFailure string

text \<open>
  Library functions and the operating system enter as parameters: the clock
  (\<open>clock w n\<close> is the ISO timestamp that the \<open>n\<close>-th call of
  \<^verbatim>\<open>datetime.datetime.now().isoformat()\<close> returns), the JSON encoder and decoder
  (\<open>loads\<close> gives \<open>None\<close> where \<^verbatim>\<open>json.load\<close> raises JSONDecodeError), Python's
  \<^verbatim>\<open>eval\<close> (\<open>Inl\<close> the message of the exception raised, \<open>Inr\<close> the result printed),
  \<^verbatim>\<open>Path.rglob\<close>, and the text printed by the handlers that only show platform
  information.
\<close>

record world =
  clock :: "nat \<Rightarrow> string"
  dumps :: "json \<Rightarrow> string"
  loads :: "string \<Rightarrow> json option"
  py_eval :: "string \<Rightarrow> string + string"
  rglob :: "path \<Rightarrow> string \<Rightarrow> glob_result"
  cwd :: path
  strftime :: "string \<Rightarrow> string \<Rightarrow> string"
  console :: "string \<Rightarrow> string list \<Rightarrow> string list"

section \<open>Persistent store\<close>

definition open_and_load :: "world \<Rightarrow> fs \<Rightarrow> path \<Rightarrow> file_data \<Rightarrow> exn + json" where
  \<comment> \<open>\<^verbatim>\<open>with open(file_path, 'r') as f: return json.load(f)\<close>\<close>
  "open_and_load w d p f =
     (if read_denied d p then Inl IOError
      else case f of
             Undecodable \<Rightarrow> Inl UnicodeDecodeError
           | Text t \<Rightarrow> (case loads w t of None \<Rightarrow> Inl JSONDecodeError | Some v \<Rightarrow> Inr v))"

definition load_json :: "world \<Rightarrow> fs \<Rightarrow> path \<Rightarrow> json \<Rightarrow> exn + json" where
  \<comment> \<open>\<open>Inl\<close>: the exception that leaves \<^verbatim>\<open>load_json\<close>; the handler catches
      JSONDecodeError and IOError only\<close>
  "load_json w d p dflt =
     (case file_at d p of
        None \<Rightarrow> Inr dflt
      | Some f \<Rightarrow>
          (case open_and_load w d p f of
             Inr v \<Rightarrow> Inr v
           | Inl JSONDecodeError \<Rightarrow> Inr dflt
           | Inl IOError \<Rightarrow> Inr dflt
           | Inl e \<Rightarrow> Inl e))"

definition save_json :: "world \<Rightarrow> fs \<Rightarrow> path \<Rightarrow> json \<Rightarrow> fs \<times> string list" where
  \<comment> \<open>the new disk and the lines printed\<close>
  "save_json w d p v =
     (case write_error d p of
        None \<Rightarrow> (d\<lparr>file_at := (file_at d)(p := Some (Text (dumps w v)))\<rparr>, [])
      | Some msg \<Rightarrow> (d, [''Error saving data: '' @ msg]))"

section \<open>The assistant's state\<close>

record state =
  notes_dict :: "(string \<times> note_item) list"
  todos :: "todo list"
  history :: "hist_entry list"
  disk :: fs
  tick :: nat
     \<comment> \<open>how many times the clock has been read\<close>

definition notes_file :: path where "notes_file = ''~/.cli_assistant/notes.json''"
definition todos_file :: path where "todos_file = ''~/.cli_assistant/todos.json''"
definition history_file :: path where "history_file = ''~/.cli_assistant/history.json''"

definition add_to_history :: "world \<Rightarrow> state \<Rightarrow> string \<Rightarrow> state \<times> string list" where
  "add_to_history w s cmd =
     (let stamp = clock w (tick s);
          h = last_n 100 (history s @ [\<lparr>command = cmd, recorded = stamp\<rparr>]);
          (d, out) = save_json w (disk s) history_file (history_json h)
      in (s\<lparr>history := h, disk := d, tick := Suc (tick s)\<rparr>, out))"


section \<open>Handlers\<close>

text \<open>
  A handler returns the new state and the strings it printed, one per call of
  \<^verbatim>\<open>print\<close>.  \<open>flow\<close> says how the call ended: it returned, it left through
  \<^verbatim>\<open>sys.exit\<close>, or an exception that nothing catches left it.
\<close>

datatype flow = Returned | SystemExit | Uncaught string

type_synonym outcome = "flow \<times> state \<times> string list"

definition nl :: char where "nl = CHR 0x0A"

definition apostrophe :: char where "apostrophe = CHR 0x27"

definition check_mark :: string where
  \<comment> \<open>U+2713, as the bytes of its UTF-8 encoding\<close>
  "check_mark = [CHR 0xE2, CHR 0x9C, CHR 0x93]"

definition circle_mark :: string where
  \<comment> \<open>U+25CB, as the bytes of its UTF-8 encoding\<close>
  "circle_mark = [CHR 0xE2, CHR 0x97, CHR 0x8B]"

definition allowed_chars :: string where
  "allowed_chars = ''0123456789+-*/.() ''"

definition calculator :: "world \<Rightarrow> string list \<Rightarrow> string list" where
  "calculator w args =
     (if args = [] then [''Usage: calc <expression>'', ''Example: calc 2 + 3 * 4'']
      else let expression = join args in
        if \<not> list_all (\<lambda>c. c \<in> set allowed_chars) expression
        then [''Error: Only basic math operations allowed'']
        else case py_eval w expression of
               Inr result \<Rightarrow> [expression @ '' = '' @ result]
             | Inl e \<Rightarrow> [''Error calculating: '' @ e])"

definition note_manager :: "world \<Rightarrow> state \<Rightarrow> string list \<Rightarrow> state \<times> string list" where
  "note_manager w s args =
     (if args = [] then (s, [''Usage: note <add|list|delete|search> [arguments]''])
      else let action = lower (args ! 0) in
        if action = ''add'' then
          (if length args < 3 then (s, [''Usage: note add <title> <content>''])
           else let title = args ! 1;
                    body = join (drop 2 args);
                    stamp = clock w (tick s);
                    ns = AList.update title \<lparr>content = body, timestamp = stamp\<rparr> (notes_dict s);
                    (d, out) = save_json w (disk s) notes_file (notes_json ns)
                in (s\<lparr>notes_dict := ns, disk := d, tick := Suc (tick s)\<rparr>,
                    out @ [''Note '' @ [apostrophe] @ title @ [apostrophe] @ '' added successfully'']))
        else if action = ''list'' then
          (if notes_dict s = [] then (s, [''No notes found''])
           else (s, concat (map (\<lambda>(title, n).
                       [nl # title @ '':'', ''  '' @ content n,
                        ''  Created: '' @ take 19 (timestamp n)]) (notes_dict s))))
        else if action = ''delete'' then
          (if length args < 2 then (s, [''Usage: note delete <title>''])
           else let title = args ! 1 in
             if title \<in> set (map fst (notes_dict s)) then
               (let ns = AList.delete title (notes_dict s);
                    (d, out) = save_json w (disk s) notes_file (notes_json ns)
                in (s\<lparr>notes_dict := ns, disk := d\<rparr>,
                    out @ [''Note '' @ [apostrophe] @ title @ [apostrophe] @ '' deleted'']))
             else (s, [''Note '' @ [apostrophe] @ title @ [apostrophe] @ '' not found'']))
        else if action = ''search'' then
          (if length args < 2 then (s, [''Usage: note search <keyword>''])
           else let keyword = lower (args ! 1);
                    hits = filter (\<lambda>(title, n). contains keyword (lower title)
                                     \<or> contains keyword (lower (content n))) (notes_dict s)
                in (s, if hits = [] then [''No notes found matching the keyword'']
                       else concat (map (\<lambda>(title, n). [nl # title @ '':'', ''  '' @ content n]) hits)))
        else (s, []))"

definition todo_manager :: "world \<Rightarrow> state \<Rightarrow> string list \<Rightarrow> state \<times> string list" where
  "todo_manager w s args =
     (if args = [] then (s, [''Usage: todo <add|list|done|delete> [arguments]''])
      else let action = lower (args ! 0) in
        if action = ''add'' then
          (if length args < 2 then (s, [''Usage: todo add <task description>''])
           else let t = join (drop 1 args);
                    todo_item = \<lparr>task = t, is_done = False, created = clock w (tick s)\<rparr>;
                    ts = todos s @ [todo_item];
                    (d, out) = save_json w (disk s) todos_file (todos_json ts)
                in (s\<lparr>todos := ts, disk := d, tick := Suc (tick s)\<rparr>, out @ [''Todo added: '' @ t]))
        else if action = ''list'' then
          (if todos s = [] then (s, [''No todos found''])
           else (s, map (\<lambda>(i, t). str_nat i @ ''. '' @ (if is_done t then check_mark else circle_mark)
                                   @ '' '' @ task t)
                        (zip [1 ..< Suc (length (todos s))] (todos s))))
        else if action = ''done'' then
          (if length args < 2 then (s, [''Usage: todo done <task_number>''])
           else case py_int (args ! 1) of
                  None \<Rightarrow> (s, [''Task number must be a number''])
                | Some k \<Rightarrow>
                    (let task_num = k - 1 in
                     if 0 \<le> task_num \<and> task_num < int (length (todos s)) then
                       (let i = nat task_num;
                            ts = (todos s)[i := (todos s ! i)\<lparr>is_done := True\<rparr>];
                            (d, out) = save_json w (disk s) todos_file (todos_json ts)
                        in (s\<lparr>todos := ts, disk := d\<rparr>,
                            out @ [''Todo marked as done: '' @ task (ts ! i)]))
                     else (s, [''Invalid task number''])))
        else if action = ''delete'' then
          (if length args < 2 then (s, [''Usage: todo delete <task_number>''])
           else case py_int (args ! 1) of
                  None \<Rightarrow> (s, [''Task number must be a number''])
                | Some k \<Rightarrow>
                    (let task_num = k - 1 in
                     if 0 \<le> task_num \<and> task_num < int (length (todos s)) then
                       (let i = nat task_num;
                            deleted_task = todos s ! i;
                            ts = take i (todos s) @ drop (Suc i) (todos s);
                            (d, out) = save_json w (disk s) todos_file (todos_json ts)
                        in (s\<lparr>todos := ts, disk := d\<rparr>,
                            out @ [''Todo deleted: '' @ task deleted_task]))
                     else (s, [''Invalid task number''])))
        else (s, []))"

definition search_files :: "world \<Rightarrow> string list \<Rightarrow> flow \<times> string list" where
  \<comment> \<open>the directory is printed as it was typed; \<^verbatim>\<open>Path\<close> may normalise its spelling\<close>
  "search_files w args =
     (if args = [] then (Returned, [''Usage: search <filename_pattern> [directory]''])
      else let pattern = args ! 0;
               directory = (if length args > 1 then args ! 1 else cwd w)
           in case rglob w directory (''*'' @ pattern @ ''*'') of
                Matches ms \<Rightarrow>
                  (if ms \<noteq> [] then
                     (Returned,
                      [''Found '' @ str_nat (length ms) @ '' matches:'']
                      @ map (\<lambda>m. ''  '' @ m) (take 20 ms)
                      @ (if length ms > 20
                         then [''  ... and '' @ str_nat (length ms - 20) @ '' more'']
                         else []))
                   else (Returned, [''No matches found'']))
              | PermissionError \<Rightarrow> (Returned, [''Permission denied: '' @ directory])
              | GlobFailure e \<Rightarrow> (Uncaught e, []))"

definition show_history :: "state \<Rightarrow> string list" where
  "show_history s =
     (if history s = [] then [''No command history'']
      else ''Recent commands:'' #
           map (\<lambda>(i, e). rjust 2 (str_nat i) @ ''. '' @ command e
                          @ '' ('' @ take 19 (recorded e) @ '')'')
               (let recent = last_n 10 (history s) in zip [1 ..< Suc (length recent)] recent))"

section \<open>Command registry and dispatcher\<close>

datatype handler =
    ShowHelp | ShowTime | ShowDate | GetWeather | Calculator | NoteManager | TodoManager
  | FileOperations | SystemInfo | UnitConverter | SearchFiles | ShowHistory | ClearScreen
  | ExitAssistant

definition commands :: "(string \<times> handler) list" where
  "commands =
     [(''help'', ShowHelp), (''time'', ShowTime), (''date'', ShowDate),
      (''weather'', GetWeather), (''calc'', Calculator), (''note'', NoteManager),
      (''todo'', TodoManager), (''files'', FileOperations), (''system'', SystemInfo),
      (''convert'', UnitConverter), (''search'', SearchFiles), (''history'', ShowHistory),
      (''clear'', ClearScreen), (''exit'', ExitAssistant), (''quit'', ExitAssistant)]"

text \<open>
  The handlers that only show help text, the time, platform and file-system information
  or a unit conversion print what \<open>console\<close> gives; they leave the notes, the todos,
  the history and the data files alone.  The two that read the clock advance it.
\<close>

fun invoke :: "world \<Rightarrow> handler \<Rightarrow> state \<Rightarrow> string list \<Rightarrow> outcome" where
  "invoke w ShowHelp s args = (Returned, s, console w ''help'' args)"
| "invoke w ShowTime s args =
     (Returned, s\<lparr>tick := Suc (tick s)\<rparr>,
      [''Current time: '' @ strftime w ''%H:%M:%S'' (clock w (tick s))])"
| "invoke w ShowDate s args =
     (Returned, s\<lparr>tick := Suc (tick s)\<rparr>,
      [''Current date: '' @ strftime w ''%Y-%m-%d (%A)'' (clock w (tick s))])"
| "invoke w GetWeather s args =
     (Returned, s,
      [''Weather service not implemented. Use '' @ [apostrophe] @ ''curl wttr.in''
       @ [apostrophe] @ '' for weather info.''])"
| "invoke w Calculator s args = (Returned, s, calculator w args)"
| "invoke w NoteManager s args = (let (s', out) = note_manager w s args in (Returned, s', out))"
| "invoke w TodoManager s args = (let (s', out) = todo_manager w s args in (Returned, s', out))"
| "invoke w FileOperations s args = (Returned, s, console w ''files'' args)"
| "invoke w SystemInfo s args = (Returned, s, console w ''system'' args)"
| "invoke w UnitConverter s args = (Returned, s, console w ''convert'' args)"
| "invoke w SearchFiles s args = (let (f, out) = search_files w args in (f, s, out))"
| "invoke w ShowHistory s args = (Returned, s, show_history s)"
| "invoke w ClearScreen s args = (Returned, s, console w ''clear'' args)"
| "invoke w ExitAssistant s args = (SystemExit, s, [''Goodbye!''])"

definition execute_command :: "world \<Rightarrow> state \<Rightarrow> string \<Rightarrow> string list \<Rightarrow> outcome" where
  "execute_command w s cmd args =
     (case map_of commands cmd of
        Some h \<Rightarrow>
          (let (s1, out1) = add_to_history w s (cmd @ '' '' @ join args);
               (f, s2, out2) = invoke w h s1 args
           in (f, s2, out1 @ out2))
      | None \<Rightarrow>
          (Returned, s,
           [''Unknown command: '' @ cmd,
            ''Type '' @ [apostrophe] @ ''help'' @ [apostrophe] @ '' for available commands'']))"

definition parse_command :: "string \<Rightarrow> string option \<times> string list" where
  "parse_command command_line =
     (let parts = split (strip command_line)
      in if parts = [] then (None, []) else (Some (lower (parts ! 0)), drop 1 parts))"

section \<open>Interactive shell\<close>

definition run_line :: "world \<Rightarrow> state \<Rightarrow> string \<Rightarrow> outcome" where
  \<comment> \<open>one pass of the loop body of \<^verbatim>\<open>run\<close>, on the line that \<^verbatim>\<open>input\<close> returned\<close>
  "run_line w s raw =
     (let command_line = strip raw in
      if command_line = [] then (Returned, s, [])
      else case parse_command command_line of
             (Some c, args) \<Rightarrow> if c \<noteq> [] then execute_command w s c args else (Returned, s, [])
           | (None, args) \<Rightarrow> (Returned, s, []))"

fun run_loop :: "world \<Rightarrow> state \<Rightarrow> string list \<Rightarrow> outcome" where
  \<comment> \<open>the loop on the lines of the standard input; at its end \<^verbatim>\<open>input\<close> raises EOFError\<close>
  "run_loop w s [] = (Returned, s, [nl # ''Exiting...''])"
| "run_loop w s (l # ls) =
     (case run_line w s l of
        (Returned, s', out) \<Rightarrow> (let (f, s'', out') = run_loop w s' ls in (f, s'', out @ out'))
      | (f, s', out) \<Rightarrow> (f, s', out))"

definition run :: "world \<Rightarrow> state \<Rightarrow> string list \<Rightarrow> outcome" where
  "run w s lines =
     (let (f, s', out) = run_loop w s lines
      in (f, s', [''Welcome to CLI Assistant!'',
                  ''Type '' @ [apostrophe] @ ''help'' @ [apostrophe] @ '' for available commands or ''
                  @ [apostrophe] @ ''exit'' @ [apostrophe] @ '' to quit.''] @ out))"


section \<open>Sequences of operations\<close>

definition add_args :: "string \<times> string list \<Rightarrow> string list" where
  \<comment> \<open>the arguments of \<^verbatim>\<open>note add <title> <content>\<close>, the content given as its words\<close>
  "add_args op = ''add'' # fst op # snd op"

fun note_session :: "world \<Rightarrow> state \<Rightarrow> string list list \<Rightarrow> state" where
  \<comment> \<open>the note handler called once for each argument list, in order\<close>
  "note_session w s [] = s"
| "note_session w s (args # rest) = note_session w (fst (note_manager w s args)) rest"


section \<open>Concrete inputs\<close>

text \<open>
  A small world and a few states on which the definitions can be run: a clock that counts,
  a JSON encoder and decoder and an expression evaluator that know a finite table, and a
  file tree with twenty-five files under \<^verbatim>\<open>/data\<close> and two under any other directory.
\<close>

definition demo_todo :: todo where
  "demo_todo = \<lparr>task = ''buy milk'', is_done = False, created = ''2024-01-01T09:00:00''\<rparr>"

definition demo_docs :: "(string \<times> json) list" where
  "demo_docs = [(''{}'', JObj []), (''[]'', JArr []), (''[buy milk]'', todos_json [demo_todo])]"

definition demo_results :: "(string \<times> string) list" where
  "demo_results = [(''2 + 3 * 4'', ''14''), (''1 + 1'', ''2''), (''(1 + 2) * 3'', ''9'')]"

definition demo_matches :: "path \<Rightarrow> path list" where
  "demo_matches dir =
     map (\<lambda>i. dir @ ''/log'' @ str_nat i @ ''.txt'') [0 ..< (if dir = ''/data'' then 25 else 2)]"

definition demo_world :: world where
  "demo_world =
     \<lparr>clock = (\<lambda>n. ''2024-01-01T10:00:00.'' @ str_nat n),
      dumps = (\<lambda>v. case find (\<lambda>e. snd e = v) demo_docs of Some e \<Rightarrow> fst e | None \<Rightarrow> ''null''),
      loads = map_of demo_docs,
      py_eval = (\<lambda>e. case map_of demo_results e of Some r \<Rightarrow> Inr r | None \<Rightarrow> Inl ''invalid syntax''),
      rglob = (\<lambda>dir pat. if dir = ''/root'' then PermissionError else Matches (demo_matches dir)),
      cwd = ''/home/user'',
      strftime = (\<lambda>fmt stamp. take 8 (drop 11 stamp)),
      console = (\<lambda>name args. [])\<rparr>"

definition demo_disk :: fs where
  \<comment> \<open>no file yet, every path readable and writable\<close>
  "demo_disk = \<lparr>file_at = (\<lambda>p. None), read_denied = (\<lambda>p. False), write_error = (\<lambda>p. None)\<rparr>"


definition corrupt_disk :: fs where
  \<comment> \<open>the notes file holds bytes that are not valid text\<close>
  "corrupt_disk =
     \<lparr>file_at = (\<lambda>p. if p = notes_file then Some Undecodable else None),
      read_denied = (\<lambda>p. False), write_error = (\<lambda>p. None)\<rparr>"

definition demo_state :: state where
  "demo_state = \<lparr>notes_dict = [], todos = [], history = [], disk = demo_disk, tick = 0\<rparr>"


definition full_state :: state where
  \<comment> \<open>a history of one hundred entries\<close>
  "full_state =
     demo_state\<lparr>history := map (\<lambda>i. \<lparr>command = ''time '', recorded = str_nat i\<rparr>) [0 ..< 100]\<rparr>"

definition demo_ops :: "(string \<times> string list) list" where
  "demo_ops = [(''A'', [''hello'', ''world'']), (''B'', [''x'']), (''A'', [''again''])]"


section \<open>Facts about the string operations\<close>

lemma split_from_space: "isspace c \<Longrightarrow> split_from [] (c # cs) = split_from [] cs"
  by simp

lemma split_from_token:
  "\<not> list_ex isspace t \<Longrightarrow> split_from cur (t @ s) = split_from (cur @ t) s"
  by (induction t arbitrary: cur) simp_all

lemma split_token_space:
  "t \<noteq> [] \<Longrightarrow> \<not> list_ex isspace t \<Longrightarrow> isspace c \<Longrightarrow> split (t @ c # rest) = t # split rest"
  by (simp add: split_def split_from_token)

lemma split_token: "t \<noteq> [] \<Longrightarrow> \<not> list_ex isspace t \<Longrightarrow> split t = [t]"
  using split_from_token [of t "[]" "[]"] by (simp add: split_def)

lemma split_all_space: "list_all isspace s \<Longrightarrow> split_from [] s = []"
  by (induction s) simp_all

lemma split_from_dropWhile: "split_from [] (dropWhile isspace s) = split_from [] s"
  by (induction s) simp_all

lemma split_from_append_space: "list_all isspace ws \<Longrightarrow> split_from cur (s @ ws) = split_from cur s"
proof (induction s arbitrary: cur)
  case Nil
  then show ?case by (cases ws) (simp_all add: split_all_space)
next
  case (Cons c s)
  then show ?case by simp
qed

lemma rev_dropWhile_decomp: "\<exists>ws. list_all P ws \<and> s = rev (dropWhile P (rev s)) @ ws"
proof -
  have "rev s = takeWhile P (rev s) @ dropWhile P (rev s)" by simp
  then have "s = rev (dropWhile P (rev s)) @ rev (takeWhile P (rev s))"
    by (metis rev_append rev_rev_ident)
  moreover have "list_all P (rev (takeWhile P (rev s)))"
    by (simp add: list_all_iff) (meson set_takeWhileD)
  ultimately show ?thesis by blast
qed

lemma split_strip: "split (strip s) = split s"
proof -
  let ?t = "dropWhile isspace s"
  obtain ws where ws: "list_all isspace ws" "?t = rev (dropWhile isspace (rev ?t)) @ ws"
    using rev_dropWhile_decomp [of isspace ?t] by blast
  have "split_from [] (rev (dropWhile isspace (rev ?t))) = split_from [] (rev (dropWhile isspace (rev ?t)) @ ws)"
    using ws(1) by (simp add: split_from_append_space)
  also have "\<dots> = split_from [] ?t" using ws(2) by simp
  also have "\<dots> = split_from [] s" by (rule split_from_dropWhile)
  finally show ?thesis by (simp add: split_def strip_def)
qed

lemma strip_all_space: "list_all isspace s \<Longrightarrow> strip s = []"
proof -
  assume "list_all isspace s"
  then have d: "dropWhile isspace s = []" by (simp add: list_all_iff)
  show ?thesis unfolding strip_def d by simp
qed

lemma split_from_tokens:
  "\<not> list_ex isspace cur \<Longrightarrow> \<forall>t\<in>set (split_from cur s). t \<noteq> [] \<and> \<not> list_ex isspace t"
proof (induction s arbitrary: cur)
  case Nil
  then show ?case by simp
next
  case (Cons c s)
  have nil: "\<forall>t\<in>set (split_from [] s). t \<noteq> [] \<and> \<not> list_ex isspace t"
    by (rule Cons.IH) simp
  show ?case
  proof (cases "isspace c")
    case True
    then show ?thesis using nil Cons.prems by simp
  next
    case False
    then have "\<not> list_ex isspace (cur @ [c])" using Cons.prems by simp
    then show ?thesis using False Cons.IH [of "cur @ [c]"] by simp
  qed
qed

lemma split_from_concat: "concat (split_from cur s) = cur @ filter (\<lambda>c. \<not> isspace c) s"
  by (induction s arbitrary: cur) simp_all

lemma parse_command_split:
  "parse_command line = (case split line of [] \<Rightarrow> (None, []) | c # args \<Rightarrow> (Some (lower c), args))"
  by (simp add: parse_command_def split_strip Let_def split: list.splits)

lemma run_line_blank: "list_all isspace line \<Longrightarrow> run_line w s line = (Returned, s, [])"
  by (simp add: run_line_def strip_all_space)


section \<open>Facts about the history and the handlers\<close>

lemma length_last_n: "length (last_n n xs) = min n (length xs)"
  by (simp add: last_n_def)

lemma last_n_snoc_full: "length xs = n \<Longrightarrow> 0 < n \<Longrightarrow> last_n n (xs @ [x]) = tl xs @ [x]"
  by (cases xs) (simp_all add: last_n_def)

lemma last_n_snoc: "0 < n \<Longrightarrow> last_n n (xs @ [x]) = last_n (n - 1) xs @ [x]"
  by (simp add: last_n_def Suc_diff_le)

lemma last_last_n_snoc: "0 < n \<Longrightarrow> last (last_n n (xs @ [x])) = x"
  by (simp add: last_n_snoc)

lemma history_add_to_history:
  "history (fst (add_to_history w s cmd)) =
     last_n 100 (history s @ [\<lparr>command = cmd, recorded = clock w (tick s)\<rparr>])"
  by (simp add: add_to_history_def Let_def split: prod.splits)

lemma history_note_manager: "history (fst (note_manager w s args)) = history s"
  by (simp add: note_manager_def Let_def split: prod.splits)

lemma history_todo_manager: "history (fst (todo_manager w s args)) = history s"
  by (simp add: todo_manager_def Let_def split: prod.splits option.splits)

lemma history_invoke: "history (fst (snd (invoke w h s args))) = history s"
  by (cases h) (simp_all add: history_note_manager history_todo_manager split: prod.splits)

lemma load_json_total:
  "load_json w d p dflt =
     (case file_at d p of
        None \<Rightarrow> Inr dflt
      | Some f \<Rightarrow>
          if read_denied d p then Inr dflt
          else (case f of
                  Undecodable \<Rightarrow> Inl UnicodeDecodeError
                | Text t \<Rightarrow> (case loads w t of None \<Rightarrow> Inr dflt | Some v \<Rightarrow> Inr v)))"
  by (simp add: load_json_def open_and_load_def split: option.splits file_data.splits)

lemma note_add_state:
  "ws \<noteq> [] \<Longrightarrow>
   notes_dict (fst (note_manager w s (add_args (t, ws)))) =
     AList.update t \<lparr>content = join ws, timestamp = clock w (tick s)\<rparr> (notes_dict s) \<and>
   tick (fst (note_manager w s (add_args (t, ws)))) = Suc (tick s)"
  by (cases ws) (simp_all add: note_manager_def add_args_def lower_def lower_char_def Let_def split: prod.splits)

lemma note_session_other:
  "\<forall>op\<in>set ops. snd op \<noteq> [] \<Longrightarrow> t \<notin> fst ` set ops \<Longrightarrow>
   map_of (notes_dict (note_session w s (map add_args ops))) t = map_of (notes_dict s) t"
proof (induction ops arbitrary: s)
  case Nil
  then show ?case by simp
next
  case (Cons op ops)
  obtain u ws where op: "op = (u, ws)" by (cases op)
  with Cons.prems have ws: "ws \<noteq> []" and u: "u \<noteq> t" by auto
  have "map_of (notes_dict (note_session w (fst (note_manager w s (add_args op))) (map add_args ops))) t
        = map_of (notes_dict (fst (note_manager w s (add_args op)))) t"
    using Cons.prems by (intro Cons.IH) auto
  also have "\<dots> = map_of (notes_dict s) t"
    using u by (simp add: op note_add_state [OF ws] update_conv')
  finally show ?case by simp
qed

lemma note_session_distinct:
  "\<forall>op\<in>set ops. snd op \<noteq> [] \<Longrightarrow> distinct (map fst (notes_dict s)) \<Longrightarrow>
   distinct (map fst (notes_dict (note_session w s (map add_args ops))))"
proof (induction ops arbitrary: s)
  case Nil
  then show ?case by simp
next
  case (Cons op ops)
  obtain u ws where op: "op = (u, ws)" by (cases op)
  with Cons.prems have ws: "ws \<noteq> []" by auto
  have "distinct (map fst (notes_dict (fst (note_manager w s (add_args op)))))"
    using Cons.prems(2) by (simp add: op note_add_state [OF ws] distinct_update)
  then show ?case using Cons.prems(1) by (simp add: Cons.IH)
qed

lemma note_session_keys:
  "\<forall>op\<in>set ops. snd op \<noteq> [] \<Longrightarrow>
   fst ` set (notes_dict (note_session w s (map add_args ops))) = fst ` set (notes_dict s) \<union> fst ` set ops"
proof (induction ops arbitrary: s)
  case Nil
  then show ?case by simp
next
  case (Cons op ops)
  obtain u ws where op: "op = (u, ws)" by (cases op)
  with Cons.prems have ws: "ws \<noteq> []" by auto
  have "fst ` set (notes_dict (fst (note_manager w s (add_args op)))) = insert u (fst ` set (notes_dict s))"
    by (simp add: op note_add_state [OF ws] dom_update)
  then show ?case using Cons.prems by (simp add: Cons.IH op)
qed

lemma note_session_last:
  "\<forall>op\<in>set ops. snd op \<noteq> [] \<Longrightarrow> i < length ops \<Longrightarrow>
   \<forall>j. i < j \<and> j < length ops \<longrightarrow> fst (ops ! j) \<noteq> fst (ops ! i) \<Longrightarrow>
   map_of (notes_dict (note_session w s (map add_args ops))) (fst (ops ! i)) =
     Some \<lparr>content = join (snd (ops ! i)), timestamp = clock w (tick s + i)\<rparr>"
proof (induction ops arbitrary: s i)
  case Nil
  then show ?case by simp
next
  case (Cons op ops)
  obtain u ws where op: "op = (u, ws)" by (cases op)
  with Cons.prems have ws: "ws \<noteq> []" by auto
  let ?s1 = "fst (note_manager w s (add_args op))"
  show ?case
  proof (cases i)
    case 0
    have "u \<notin> fst ` set ops"
    proof
      assume "u \<in> fst ` set ops"
      then obtain k where "k < length ops" "fst (ops ! k) = u"
        by (auto simp: in_set_conv_nth)
      with Cons.prems(3) [rule_format, of "Suc k"] 0 op show False by simp
    qed
    then have "map_of (notes_dict (note_session w ?s1 (map add_args ops))) u = map_of (notes_dict ?s1) u"
      using Cons.prems(1) by (intro note_session_other) auto
    also have "\<dots> = Some \<lparr>content = join ws, timestamp = clock w (tick s)\<rparr>"
      by (simp add: op note_add_state [OF ws] update_conv')
    finally show ?thesis using 0 op by simp
  next
    case (Suc k)
    have "map_of (notes_dict (note_session w ?s1 (map add_args ops))) (fst (ops ! k)) =
          Some \<lparr>content = join (snd (ops ! k)), timestamp = clock w (tick ?s1 + k)\<rparr>"
    proof (rule Cons.IH)
      show "\<forall>op\<in>set ops. snd op \<noteq> []" using Cons.prems(1) by simp
      show "k < length ops" using Cons.prems(2) Suc by simp
      show "\<forall>j. k < j \<and> j < length ops \<longrightarrow> fst (ops ! j) \<noteq> fst (ops ! k)"
      proof (intro allI impI)
        fix j assume "k < j \<and> j < length ops"
        with Cons.prems(3) [rule_format, of "Suc j"] Suc show "fst (ops ! j) \<noteq> fst (ops ! k)" by simp
      qed
    qed
    then show ?thesis using Suc by (simp add: op note_add_state [OF ws])
  qed
qed


section \<open>Dispatcher and history\<close>

text \<open>
  Claim C1, as the dispatcher implements it.  A command whose name is in the registry is
  recorded before its handler runs: the history becomes the last hundred entries of the old
  history followed by the entry \<open>"<command> <space-joined args>"\<close> stamped with the
  current time, whatever the handler then reports.  A command whose name is not in the
  registry is reported as unknown, and the whole state, the history included, stays as
  it was.
\<close>

theorem execute_command_records:
  "(map_of commands cmd = Some h \<longrightarrow>
      history (fst (snd (execute_command w s cmd args))) =
        last_n 100 (history s @ [\<lparr>command = cmd @ '' '' @ join args, recorded = clock w (tick s)\<rparr>]) \<and>
      last (history (fst (snd (execute_command w s cmd args)))) =
        \<lparr>command = cmd @ '' '' @ join args, recorded = clock w (tick s)\<rparr>) \<and>
   (map_of commands cmd = None \<longrightarrow>
      execute_command w s cmd args =
        (Returned, s,
         [''Unknown command: '' @ cmd,
          ''Type '' @ [apostrophe] @ ''help'' @ [apostrophe] @ '' for available commands'']))"
proof (intro conjI impI)
  let ?e = "\<lparr>command = cmd @ '' '' @ join args, recorded = clock w (tick s)\<rparr>"
  assume reg: "map_of commands cmd = Some h"
  obtain s1 out1 where a: "add_to_history w s (cmd @ '' '' @ join args) = (s1, out1)"
    by (cases "add_to_history w s (cmd @ '' '' @ join args)")
  obtain f s2 out2 where i: "invoke w h s1 args = (f, s2, out2)"
    by (cases "invoke w h s1 args")
  have "history s2 = history s1"
    using history_invoke [of w h s1 args] i by simp
  moreover have "history s1 = last_n 100 (history s @ [?e])"
    using history_add_to_history [of w s "cmd @ '' '' @ join args"] a by simp
  moreover have "execute_command w s cmd args = (f, s2, out1 @ out2)"
    using a i by (simp add: execute_command_def reg)
  ultimately show h: "history (fst (snd (execute_command w s cmd args))) = last_n 100 (history s @ [?e])"
    by simp
  show "last (history (fst (snd (execute_command w s cmd args)))) = ?e"
    by (simp add: h last_last_n_snoc)
next
  assume "map_of commands cmd = None"
  then show "execute_command w s cmd args =
        (Returned, s,
         [''Unknown command: '' @ cmd,
          ''Type '' @ [apostrophe] @ ''help'' @ [apostrophe] @ '' for available commands''])"
    by (simp add: execute_command_def)
qed

theorem execute_command_records_witness:
  "map_of commands ''todo'' = Some TodoManager \<and>
   history (fst (snd (execute_command demo_world demo_state ''todo'' [''done'', ''7'']))) =
     [\<lparr>command = ''todo done 7'', recorded = clock demo_world 0\<rparr>] \<and>
   map_of commands ''frobnicate'' = None \<and>
   execute_command demo_world demo_state ''frobnicate'' [''now''] =
     (Returned, demo_state,
      [''Unknown command: frobnicate'',
       ''Type '' @ [apostrophe] @ ''help'' @ [apostrophe] @ '' for available commands''])"
proof -
  have a: "map_of commands ''todo'' = Some TodoManager" by (simp add: commands_def)
  have b: "map_of commands ''frobnicate'' = None" by (simp add: commands_def)
  have c: "history demo_state = []" "tick demo_state = 0" by (simp_all add: demo_state_def)
  show ?thesis
    using execute_command_records [of "''todo''" TodoManager demo_world demo_state "[''done'', ''7'']"]
      execute_command_records [of "''frobnicate''" TodoManager demo_world demo_state "[''now'']"] a b c
    by (simp add: last_n_def)
qed

text \<open>
  Claim C1 as stated says that dispatching an unknown command appends a history entry.
  Dispatching \<^verbatim>\<open>frobnicate now\<close> on an empty history leaves the history empty.
\<close>

theorem execute_command_unknown_counterexample:
  "map_of commands ''frobnicate'' = None \<and>
   history (fst (snd (execute_command demo_world demo_state ''frobnicate'' [''now'']))) = [] \<and>
   \<lparr>command = ''frobnicate now'', recorded = clock demo_world 0\<rparr>
     \<notin> set (history (fst (snd (execute_command demo_world demo_state ''frobnicate'' [''now'']))))"
  by (simp add: execute_command_def commands_def demo_state_def)

text \<open>
  Claim C2.  From any history, \<open>add_to_history\<close> leaves at most one hundred entries:
  the last ninety-nine of the old history followed by the new entry.  When the old history
  holds exactly one hundred entries, exactly its oldest entry is dropped.
\<close>

theorem add_to_history_bounded:
  "length (history (fst (add_to_history w s cmd))) \<le> 100 \<and>
   length (history (fst (add_to_history w s cmd))) = min 100 (Suc (length (history s))) \<and>
   history (fst (add_to_history w s cmd)) =
     last_n 99 (history s) @ [\<lparr>command = cmd, recorded = clock w (tick s)\<rparr>] \<and>
   (length (history s) = 100 \<longrightarrow>
      history (fst (add_to_history w s cmd)) =
        tl (history s) @ [\<lparr>command = cmd, recorded = clock w (tick s)\<rparr>])"
proof -
  let ?e = "\<lparr>command = cmd, recorded = clock w (tick s)\<rparr>"
  let ?h = "history (fst (add_to_history w s cmd))"
  have eq: "?h = last_n 100 (history s @ [?e])"
    by (rule history_add_to_history)
  have a: "length ?h \<le> 100" by (simp add: eq length_last_n)
  have b: "length ?h = min 100 (Suc (length (history s)))" by (simp add: eq length_last_n)
  have c: "?h = last_n 99 (history s) @ [?e]" by (simp add: eq last_n_snoc)
  have d: "length (history s) = 100 \<longrightarrow> ?h = tl (history s) @ [?e]"
    by (simp add: eq last_n_snoc_full)
  from a b c d show ?thesis by blast
qed

theorem add_to_history_bounded_witness:
  "length (history full_state) = 100 \<and>
   length (history (fst (add_to_history demo_world full_state ''date ''))) = 100 \<and>
   history (fst (add_to_history demo_world full_state ''date '')) =
     tl (history full_state) @ [\<lparr>command = ''date '', recorded = clock demo_world 0\<rparr>]"
proof -
  let ?r = "history (fst (add_to_history demo_world full_state ''date ''))"
  have n: "length (history full_state) = 100" by (simp add: full_state_def)
  have t: "tick full_state = 0" by (simp add: full_state_def demo_state_def)
  note T = add_to_history_bounded [of demo_world full_state "''date ''"]
  from T have "length ?r = min 100 (Suc (length (history full_state)))" by blast
  then have l: "length ?r = 100" by (simp add: n)
  from T n have "?r = tl (history full_state)
      @ [\<lparr>command = ''date '', recorded = clock demo_world (tick full_state)\<rparr>]" by blast
  then have e: "?r = tl (history full_state) @ [\<lparr>command = ''date '', recorded = clock demo_world 0\<rparr>]"
    by (simp only: t)
  from n l e show ?thesis by blast
qed


section \<open>Persistent store\<close>




text \<open>
  Claim C4 says that \<open>load_json\<close> never raises.  On a notes file whose bytes are not
  valid text the read raises UnicodeDecodeError, which the handler for JSONDecodeError and
  IOError does not catch: the exception leaves \<open>load_json\<close>.
\<close>

theorem load_json_raises:
  "file_at corrupt_disk notes_file = Some Undecodable \<and>
   load_json demo_world corrupt_disk notes_file (JObj []) = Inl UnicodeDecodeError"
  by (simp add: corrupt_disk_def load_json_def open_and_load_def)


section \<open>Todos and notes\<close>





text \<open>
  Claim C6.  After any sequence of \<^verbatim>\<open>note add <title> <content>\<close> on a collection
  with one entry per title (a Python dictionary never holds a key twice; the empty
  collection is the case the claim starts from), the collection still has one entry per
  title, its titles are the earlier ones and those added, and each added title carries
  the content and the timestamp of the last \<^verbatim>\<open>note add\<close> of that title.
\<close>

theorem note_add_sequence:
  assumes d: "distinct (map fst (notes_dict s))"
    and ne: "\<forall>op\<in>set ops. snd op \<noteq> []"
  shows "distinct (map fst (notes_dict (note_session w s (map add_args ops)))) \<and>
     set (map fst (notes_dict (note_session w s (map add_args ops)))) =
       set (map fst (notes_dict s)) \<union> set (map fst ops) \<and>
     length (notes_dict (note_session w s (map add_args ops))) =
       card (set (map fst (notes_dict s)) \<union> set (map fst ops)) \<and>
     (\<forall>i<length ops.
        (\<forall>j. i < j \<and> j < length ops \<longrightarrow> fst (ops ! j) \<noteq> fst (ops ! i)) \<longrightarrow>
        map_of (notes_dict (note_session w s (map add_args ops))) (fst (ops ! i)) =
          Some \<lparr>content = join (snd (ops ! i)), timestamp = clock w (tick s + i)\<rparr>)"
proof -
  let ?ns = "notes_dict (note_session w s (map add_args ops))"
  have a: "distinct (map fst ?ns)"
    using ne d by (rule note_session_distinct)
  have b: "set (map fst ?ns) = set (map fst (notes_dict s)) \<union> set (map fst ops)"
    using note_session_keys [OF ne, of w s] by simp
  have "length ?ns = length (map fst ?ns)" by simp
  also have "\<dots> = card (set (map fst ?ns))"
    using a by (rule distinct_card [symmetric])
  finally have c: "length ?ns = card (set (map fst (notes_dict s)) \<union> set (map fst ops))"
    by (simp only: b)
  have e: "\<forall>i<length ops.
        (\<forall>j. i < j \<and> j < length ops \<longrightarrow> fst (ops ! j) \<noteq> fst (ops ! i)) \<longrightarrow>
        map_of ?ns (fst (ops ! i)) =
          Some \<lparr>content = join (snd (ops ! i)), timestamp = clock w (tick s + i)\<rparr>"
    using note_session_last [OF ne] by blast
  from a b c e show ?thesis by blast
qed

theorem note_add_sequence_witness:
  "distinct (map fst (notes_dict demo_state)) \<and>
   map fst (notes_dict (note_session demo_world demo_state (map add_args demo_ops))) = [''A'', ''B''] \<and>
   map_of (notes_dict (note_session demo_world demo_state (map add_args demo_ops))) ''A'' =
     Some \<lparr>content = ''again'', timestamp = clock demo_world 2\<rparr>"
proof -
  have d: "distinct (map fst (notes_dict demo_state))" by (simp add: demo_state_def)
  have ne: "\<forall>op\<in>set demo_ops. snd op \<noteq> []" by (simp add: demo_ops_def)
  note T = note_add_sequence [OF d ne, of demo_world]
  have later: "\<forall>j. 2 < j \<and> j < length demo_ops \<longrightarrow> fst (demo_ops ! j) \<noteq> fst (demo_ops ! 2)"
    by (simp add: demo_ops_def)
  have "(2::nat) < length demo_ops" by (simp add: demo_ops_def)
  with T later have "map_of (notes_dict (note_session demo_world demo_state (map add_args demo_ops)))
      (fst (demo_ops ! 2)) =
      Some \<lparr>content = join (snd (demo_ops ! 2)), timestamp = clock demo_world (tick demo_state + 2)\<rparr>"
    by blast
  then have m: "map_of (notes_dict (note_session demo_world demo_state (map add_args demo_ops))) ''A'' =
     Some \<lparr>content = ''again'', timestamp = clock demo_world 2\<rparr>"
    by (simp add: demo_ops_def demo_state_def numeral_2_eq_2)
  have k: "map fst (notes_dict (note_session demo_world demo_state (map add_args demo_ops))) = [''A'', ''B'']"
    by (simp add: demo_ops_def demo_state_def add_args_def note_manager_def lower_def lower_char_def
        save_json_def demo_disk_def Let_def)
  from d k m show ?thesis by blast
qed


section \<open>Calculator, parsing and search\<close>



text \<open>
  Claim C8.  \<open>parse_command\<close> returns the first token of the line in lower case and the
  remaining tokens as they are.  The tokens are the maximal runs of characters that are
  not whitespace: each is non-empty and free of whitespace, together they are the line
  without its whitespace, leading whitespace is skipped and a token ends at the next
  whitespace character.  A line of whitespace only gives no command, and the loop body
  returns the state unchanged and prints nothing: no handler runs and no history entry
  is added.
\<close>

theorem parse_command_spec:
  "parse_command line = (case split line of [] \<Rightarrow> (None, []) | c # args \<Rightarrow> (Some (lower c), args)) \<and>
   (\<forall>t\<in>set (split line). t \<noteq> [] \<and> \<not> list_ex isspace t) \<and>
   concat (split line) = filter (\<lambda>c. \<not> isspace c) line \<and>
   (t \<noteq> [] \<and> \<not> list_ex isspace t \<and> isspace c \<longrightarrow> split (t @ c # rest) = t # split rest) \<and>
   (t \<noteq> [] \<and> \<not> list_ex isspace t \<longrightarrow> split t = [t]) \<and>
   (isspace c \<longrightarrow> split (c # rest) = split rest) \<and>
   (list_all isspace line \<longrightarrow>
      parse_command line = (None, []) \<and> run_line w s line = (Returned, s, []))"
proof -
  have a: "parse_command line = (case split line of [] \<Rightarrow> (None, []) | c # args \<Rightarrow> (Some (lower c), args))"
    by (rule parse_command_split)
  have b: "\<forall>t\<in>set (split line). t \<noteq> [] \<and> \<not> list_ex isspace t"
    unfolding split_def by (rule split_from_tokens) simp
  have c: "concat (split line) = filter (\<lambda>c. \<not> isspace c) line"
    by (simp add: split_def split_from_concat)
  have d: "t \<noteq> [] \<and> \<not> list_ex isspace t \<and> isspace c \<longrightarrow> split (t @ c # rest) = t # split rest"
    by (simp add: split_token_space)
  have e: "t \<noteq> [] \<and> \<not> list_ex isspace t \<longrightarrow> split t = [t]"
    by (simp add: split_token)
  have f: "isspace c \<longrightarrow> split (c # rest) = split rest"
    by (simp add: split_def)
  have g: "list_all isspace line \<longrightarrow>
      parse_command line = (None, []) \<and> run_line w s line = (Returned, s, [])"
    by (simp add: a split_def split_all_space run_line_blank)
  from a b c d e f g show ?thesis by blast
qed

theorem parse_command_spec_witness:
  "parse_command ''  Note  ADD Foo '' = (Some ''note'', [''ADD'', ''Foo'']) \<and>
   list_all isspace ''   '' \<and>
   parse_command ''   '' = (None, []) \<and>
   run_line demo_world demo_state ''   '' = (Returned, demo_state, [])"
proof -
  have sp: "list_all isspace ''   ''" by (simp add: isspace_def)
  have tok: "split ''  Note  ADD Foo '' = [''Note'', ''ADD'', ''Foo'']"
    by (simp add: split_def isspace_def)
  have low: "lower ''Note'' = ''note''" by code_simp
  from parse_command_spec [of "''  Note  ADD Foo ''"] tok low
  have p: "parse_command ''  Note  ADD Foo '' = (Some ''note'', [''ADD'', ''Foo''])" by simp
  from parse_command_spec [of "''   ''" "[]" "CHR '' ''" "[]" demo_world demo_state] sp
  have q: "parse_command ''   '' = (None, []) \<and>
      run_line demo_world demo_state ''   '' = (Returned, demo_state, [])" by blast
  from p sp q show ?thesis by blast
qed

text \<open>
  Claim C9.  When the search finds the paths \<open>ms\<close>, the handler prints the number of
  matches, then the first twenty paths of \<open>ms\<close> at most, and, only when there are more
  than twenty, one more line that gives the number of paths not shown.
\<close>

theorem search_files_limit:
  "args \<noteq> [] \<Longrightarrow>
   rglob w (if length args > 1 then args ! 1 else cwd w) (''*'' @ args ! 0 @ ''*'') = Matches ms \<Longrightarrow>
   ms \<noteq> [] \<Longrightarrow>
   search_files w args =
     (Returned,
      [''Found '' @ str_nat (length ms) @ '' matches:'']
      @ map (\<lambda>m. ''  '' @ m) (take 20 ms)
      @ (if length ms > 20 then [''  ... and '' @ str_nat (length ms - 20) @ '' more''] else []))
   \<and> length (map (\<lambda>m. ''  '' @ m) (take 20 ms)) = min 20 (length ms)
   \<and> length (snd (search_files w args)) = (if length ms > 20 then 22 else Suc (length ms))"
  by (simp add: search_files_def Let_def)

theorem search_files_limit_witness:
  "rglob demo_world ''/data'' ''*log*'' = Matches (demo_matches ''/data'') \<and>
   length (demo_matches ''/data'') = 25 \<and>
   length (snd (search_files demo_world [''log'', ''/data''])) = 22 \<and>
   search_files demo_world [''log'', ''/data''] =
     (Returned,
      [''Found 25 matches:''] @ map (\<lambda>m. ''  '' @ m) (take 20 (demo_matches ''/data''))
      @ [''  ... and 5 more''])"
proof -
  have a: "[''log'', ''/data''] \<noteq> []" by simp
  have b: "rglob demo_world (if length [''log'', ''/data''] > 1 then [''log'', ''/data''] ! 1 else cwd demo_world)
             (''*'' @ [''log'', ''/data''] ! 0 @ ''*'') = Matches (demo_matches ''/data'')"
    by (simp add: demo_world_def)
  have n: "length (demo_matches ''/data'') = 25" by (simp add: demo_matches_def)
  then have c: "demo_matches ''/data'' \<noteq> []" by auto
  have s25: "str_nat 25 = ''25''" by code_simp
  have s5: "str_nat 5 = ''5''" by code_simp
  have r: "rglob demo_world ''/data'' ''*log*'' = Matches (demo_matches ''/data'')"
    by (simp add: demo_world_def)
  from search_files_limit [OF a b c] n s25 s5
  have "length (snd (search_files demo_world [''log'', ''/data''])) = 22 \<and>
   search_files demo_world [''log'', ''/data''] =
     (Returned,
      [''Found 25 matches:''] @ map (\<lambda>m. ''  '' @ m) (take 20 (demo_matches ''/data''))
      @ [''  ... and 5 more''])" by simp
  with r n show ?thesis by blast
qed

end
